theory Spec2Isabelle
  imports Complex_Main
begin

section \<open>Polytope bias estimation and facet reconstruction for ReLU layers\<close>

text \<open>
  A shallow embedding of the routines of \<^verbatim>\<open>Code.ipynb\<close>: \<^verbatim>\<open>norm_row\<close>,
  \<^verbatim>\<open>is_omnidir\<close>, \<^verbatim>\<open>alpha_S\<close>, \<^verbatim>\<open>pbe\<close>, \<^verbatim>\<open>relu\<close> and \<^verbatim>\<open>relu_inv\<close>.

  Conventions of the model.
  \<^item> A one-dimensional numpy array of floats is a \<open>real list\<close>, a two-dimensional one
    is the list of its rows. Arithmetic is exact real arithmetic, except in
    \<open>norm_row_fp\<close>, which rounds as IEEE doubles do and decides what depends on
    rounding. A float that is not finite (nan, inf) has no counterpart in \<open>real\<close>;
    where numpy would produce one, the model stops with the outcome \<open>NonFinite\<close>.
  \<^item> A Python exception is a value \<open>Inl e\<close> of a sum type.
  \<^item> What \<^verbatim>\<open>print\<close> writes is returned as a list of printed lines, next to the value.
  \<^item> The numerical library routines the notebook calls (numpy's \<^verbatim>\<open>matrix_rank\<close> and
    \<^verbatim>\<open>lstsq\<close>, scipy's \<^verbatim>\<open>linprog\<close>, the cvxpy solver) are not part of the
    repository; they are the fields of a record \<open>numlib\<close> that every routine takes.
  \<^item> Vertex indices are natural numbers (the hull routine never yields a negative index).
  \<^item> The \<^verbatim>\<open>torch.is_tensor\<close> branches only convert a tensor to an array first and
    are left out.
\<close>

subsection \<open>Arrays\<close>

type_synonym vec = "real list"
type_synonym matrix = "real list list"

datatype py_error =
    ValueError
  | IndexError
  | UnboundLocalError
  | ZeroDivisionError
  | LinAlgError
  | SolverError
  | NonFinite

datatype printed =
    Line string
  | FacetLine nat "nat list"

text \<open>\<^verbatim>\<open>W.shape[1]\<close> of an array given by its rows.\<close>

definition ncols :: "matrix \<Rightarrow> nat" where
  "ncols W = (case W of [] \<Rightarrow> 0 | r # _ \<Rightarrow> length r)"

definition dot :: "vec \<Rightarrow> vec \<Rightarrow> real" where
  "dot u v = (\<Sum>(a, b) \<leftarrow> zip u v. a * b)"

text \<open>\<^verbatim>\<open>np.linalg.norm\<close> of one row: the square root of the sum of squares.\<close>

definition vnorm :: "vec \<Rightarrow> real" where
  "vnorm v = sqrt (\<Sum>a \<leftarrow> v. a * a)"

text \<open>\<^verbatim>\<open>np.dot(W, x)\<close> for a two-dimensional \<open>W\<close> and a one-dimensional \<open>x\<close>.\<close>

definition np_dot :: "matrix \<Rightarrow> vec \<Rightarrow> py_error + vec" where
  "np_dot W x =
     (if list_all (\<lambda>r. length r = length x) W then Inr (map (\<lambda>r. dot r x) W)
      else Inl ValueError)"

text \<open>\<^verbatim>\<open>a - b\<close> on one-dimensional arrays, with numpy's broadcasting of a length-one operand.\<close>

definition np_sub :: "vec \<Rightarrow> vec \<Rightarrow> py_error + vec" where
  "np_sub a b =
     (if length a = length b then Inr (map2 (\<lambda>u v. u - v) a b)
      else if length b = 1 then Inr (map (\<lambda>u. u - hd b) a)
      else if length a = 1 then Inr (map (\<lambda>v. hd a - v) b)
      else Inl ValueError)"

text \<open>\<^verbatim>\<open>a[idx]\<close> (and \<^verbatim>\<open>W[idx, :]\<close>) for a list of indices.\<close>

definition take_idx :: "'a list \<Rightarrow> nat list \<Rightarrow> py_error + 'a list" where
  "take_idx xs idx =
     (if list_all (\<lambda>k. k < length xs) idx then Inr (map (\<lambda>k. xs ! k) idx)
      else Inl IndexError)"

text \<open>\<^verbatim>\<open>np.min\<close> of a one-dimensional array; it raises on an empty one.\<close>

fun np_min :: "vec \<Rightarrow> py_error + real" where
  "np_min [] = Inl ValueError"
| "np_min (a # as) = Inr (fold min as a)"

text \<open>Running a list of computations in order, stopping at the first exception.\<close>

fun collect :: "(py_error + 'a) list \<Rightarrow> py_error + 'a list" where
  "collect [] = Inr []"
| "collect (c # cs) =
     (case c of
        Inl e \<Rightarrow> Inl e
      | Inr v \<Rightarrow> (case collect cs of Inl e \<Rightarrow> Inl e | Inr vs \<Rightarrow> Inr (v # vs)))"

subsection \<open>The external numerical library\<close>

text \<open>
  The conic program that \<^verbatim>\<open>alpha_S\<close> hands to cvxpy:
  \<^verbatim>\<open>cp.Problem(cp.Minimize(f @ c), [cp.SOC(1, FT @ c)] + [c >= np.zeros(m)])\<close>.
\<close>

record conic_problem =
  objective :: vec
  soc_bound :: real
  soc_matrix :: matrix
  lower :: vec

record linprog_result =
  message :: string
  solution :: vec

record numlib =
  matrix_rank :: "matrix \<Rightarrow> nat"
  linprog :: "vec \<Rightarrow> matrix \<Rightarrow> vec \<Rightarrow> py_error + linprog_result"
  cvx_solve :: "conic_problem \<Rightarrow> py_error + real"
  lstsq :: "matrix \<Rightarrow> vec \<Rightarrow> py_error + vec"



text \<open>
  What a least-squares routine promises for the system \<open>A x \<approx> y\<close>: no vector of the
  same length has a smaller residual.
\<close>

definition residual :: "matrix \<Rightarrow> vec \<Rightarrow> vec \<Rightarrow> real" where
  "residual A y x = (\<Sum>(r, t) \<leftarrow> zip A y. (dot r x - t) * (dot r x - t))"

definition least_squares :: "matrix \<Rightarrow> vec \<Rightarrow> vec \<Rightarrow> bool" where
  "least_squares A y x \<longleftrightarrow>
     length x = ncols A \<and> (\<forall>x'. length x' = ncols A \<longrightarrow> residual A y x \<le> residual A y x')"

subsection \<open>\<^verbatim>\<open>norm_row\<close>\<close>

text \<open>
  \<^verbatim>\<open>
  def norm_row(W):
      norm = np.linalg.norm(W, axis=1)
      W_norm = W / norm[:, None]
      return W_norm, norm
  \<close>
  A row of norm zero makes numpy divide by zero: the row of \<^verbatim>\<open>W_norm\<close> is nan
  (with a warning, no exception). The model stops with \<open>NonFinite\<close> there.
  This definition computes in exact real arithmetic. It serves the properties of
  \<^verbatim>\<open>pbe\<close>, which do not depend on rounding; what the division does in double
  precision is the subject of \<open>norm_row_fp\<close> below.
\<close>

definition norm_row :: "matrix \<Rightarrow> py_error + (matrix \<times> vec)" where
  "norm_row W =
     (let norms = map vnorm W
      in if 0 \<in> set norms then Inl NonFinite
         else Inr (map2 (\<lambda>r d. map (\<lambda>a. a / d) r) W norms, norms))"

subsection \<open>\<^verbatim>\<open>norm_row\<close> in double precision\<close>

text \<open>
  An IEEE double that is not zero is \<open>\<plusminus> m \<cdot> 2\<^sup>e\<^sup>-\<^sup>5\<^sup>2\<close> with an integer
  \<open>2\<^sup>5\<^sup>2 \<le> m < 2\<^sup>5\<^sup>3\<close> and \<open>-1022 \<le> e \<le> 1023\<close>. An arithmetic operation on
  doubles returns the exact result rounded to the nearest double, a tie going to the
  even \<open>m\<close>. \<open>rne\<close> rounds a real to the nearest integer in that way, and \<open>fl x\<close>
  is the double nearest to \<open>x\<close>. It is \<open>None\<close> when the rounded value is outside the
  range of these doubles: an overflow (numpy goes on with inf) or a subnormal result
  (numpy goes on with fewer digits); the model says nothing about such runs.
\<close>

definition rne :: "real \<Rightarrow> int" where
  "rne y =
     (let f = \<lfloor>y\<rfloor>; d = y - of_int f
      in if d < 1 / 2 then f else if 1 / 2 < d then f + 1 else if even f then f else f + 1)"

definition fl :: "real \<Rightarrow> real option" where
  "fl x =
     (if x = 0 then Some 0
      else
        (let e = \<lfloor>log 2 \<bar>x\<bar>\<rfloor>;
             r = of_int (rne (x / 2 powr of_int (e - 52))) * 2 powr of_int (e - 52)
         in if e < - 1022 \<or> 2 powr 1024 \<le> \<bar>r\<bar> then None else Some r))"

text \<open>
  \<^verbatim>\<open>norm_row\<close> with the division \<^verbatim>\<open>W / norm[:, None]\<close> in double precision. The
  first argument stands for \<^verbatim>\<open>np.linalg.norm\<close>, which is numpy's: it gives the double
  that numpy returns for a row. The result is \<open>None\<close> when a norm is zero (nan in
  numpy) or a quotient is outside the range of \<open>fl\<close>.
\<close>

definition norm_row_fp :: "(vec \<Rightarrow> real) \<Rightarrow> matrix \<Rightarrow> (matrix \<times> vec) option" where
  "norm_row_fp np_norm W =
     (let norms = map np_norm W
      in if 0 \<in> set norms then None
         else
           (case those (map2 (\<lambda>r d. those (map (\<lambda>a. fl (a / d)) r)) W norms) of
              None \<Rightarrow> None
            | Some W_norm \<Rightarrow> Some (W_norm, norms)))"

subsection \<open>\<^verbatim>\<open>relu\<close>\<close>

text \<open>
  \<^verbatim>\<open>
  def relu(x, W, b):
      z = np.dot(W, x) - b
      return z * (z > 0)
  \<close>
  The function has no \<^verbatim>\<open>print\<close> and assigns to no argument, so the model has no
  printed lines and no state.
\<close>

definition relu :: "vec \<Rightarrow> matrix \<Rightarrow> vec \<Rightarrow> py_error + vec" where
  "relu x W b =
     (case np_dot W x of
        Inl e \<Rightarrow> Inl e
      | Inr wx \<Rightarrow>
          (case np_sub wx b of
             Inl e \<Rightarrow> Inl e
           | Inr z \<Rightarrow> Inr (map (\<lambda>u. u * (if u > 0 then 1 else 0)) z)))"

subsection \<open>\<^verbatim>\<open>is_omnidir\<close>\<close>

text \<open>
  \<^verbatim>\<open>
  def is_omnidir(W):
      WT = np.transpose(W)
      m = W.shape[0]
      n = W.shape[1]
      if np.linalg.matrix_rank(W) != n:
          return print('The system is not a frame')
      WW = np.concatenate([WT, [np.ones(m)]])
      ones = np.ones(m)
      zeros = np.concatenate([np.zeros(n), [1]])
      res = linprog(ones, A_eq=WW, b_eq=zeros)
      if res['message'] == 'The algorithm terminated successfully and determined that the problem is infeasible.':
          return False
      elif res['message'] == 'Optimization terminated successfully.':
          if np.any(res['x'] < 1e-10) == True:
              print('0 lies at or very very close to the boundary of the polytope.')
              return True
          else:
              return True
  \<close>
  The value is Python's \<^verbatim>\<open>None\<close>, \<^verbatim>\<open>False\<close> or \<^verbatim>\<open>True\<close>: a \<open>bool option\<close>.
  \<^verbatim>\<open>print\<close> returns \<^verbatim>\<open>None\<close>, and so does falling off the end of the function.
\<close>

definition msg_infeasible :: string where
  "msg_infeasible =
     ''The algorithm terminated successfully and determined that the problem is infeasible.''"

definition msg_optimal :: string where
  "msg_optimal = ''Optimization terminated successfully.''"

text \<open>
  The two strings above are the messages of scipy's former default method. The release
  that the repository pins (\<^verbatim>\<open>scipy==1.10.0\<close>) solves with HiGHS by default and
  appends the solver's status to the message; for an optimum it reports the string below.
\<close>

definition msg_highs_optimal :: string where
  "msg_highs_optimal = ''Optimization terminated successfully. (HiGHS Status 7: Optimal)''"

definition is_omnidir :: "numlib \<Rightarrow> matrix \<Rightarrow> printed list \<times> (py_error + bool option)" where
  "is_omnidir lib W =
     (let WT = transpose W; m = length W; n = ncols W
      in if matrix_rank lib W \<noteq> n then ([Line ''The system is not a frame''], Inr None)
         else
           (let WW = WT @ [replicate m 1];
                ones = replicate m 1;
                zeros = replicate n 0 @ [1]
            in case linprog lib ones WW zeros of
                 Inl e \<Rightarrow> ([], Inl e)
               | Inr res \<Rightarrow>
                   if message res = msg_infeasible then ([], Inr (Some False))
                   else if message res = msg_optimal then
                     (if list_ex (\<lambda>c. c < 1 / 10 ^ 10) (solution res)
                      then ([Line ''0 lies at or very very close to the boundary of the polytope.''],
                            Inr (Some True))
                      else ([], Inr (Some True)))
                   else ([], Inr None)))"

subsection \<open>\<^verbatim>\<open>alpha_S\<close>\<close>

text \<open>
  \<^verbatim>\<open>
  def alpha_S(F):
      m, n = F.shape
      FT = F.T
      sol = []
      for i in range(m):
          f = np.matmul(F[i, :], FT)
          c = cp.Variable(m)
          soc_constraints = [cp.SOC(1, FT @ c)]  # cp.SOC(1, x) --> ||x||_2 <= 1.
          prob = cp.Problem(cp.Minimize(f @ c), soc_constraints + [c >= np.zeros(m)])
          result = prob.solve()
          sol.append(prob.value)
      return min(sol)
  \<close>
  Entry \<open>j\<close> of \<^verbatim>\<open>np.matmul(F[i, :], FT)\<close> is the inner product of rows \<open>i\<close> and \<open>j\<close>.
  \<open>cvx_solve\<close> stands for \<^verbatim>\<open>prob.solve()\<close> followed by \<^verbatim>\<open>prob.value\<close>.
\<close>

definition soc_program :: "matrix \<Rightarrow> nat \<Rightarrow> conic_problem" where
  "soc_program F i =
     \<lparr>objective = map (\<lambda>r. dot (F ! i) r) F,
      soc_bound = 1,
      soc_matrix = transpose F,
      lower = replicate (length F) 0\<rparr>"

definition alpha_S :: "numlib \<Rightarrow> matrix \<Rightarrow> py_error + real" where
  "alpha_S lib F =
     (case collect (map (\<lambda>i. cvx_solve lib (soc_program F i)) [0..<length F]) of
        Inl e \<Rightarrow> Inl e
      | Inr sol \<Rightarrow> np_min sol)"

subsection \<open>\<^verbatim>\<open>pbe\<close>\<close>

text \<open>
  \<^verbatim>\<open>
  def pbe(W, facets, K='sphere', radius=1):
      if is_omnidir(W) == False:
          return 'The frame is not omnidirectional'
      W_norm, norm = norm_row(W)
      m, n = W.shape
      alpha_norm = []
      for vert in range(0, m):
          neighbours = np.unique(np.array(facets)[[vert in facet for facet in facets]])
          corr_vec = W_norm[vert, :].dot(W_norm[neighbours, :].T)
          min_corr = np.min(corr_vec)
          if min_corr < 0:
              min_corr = alpha_S(W_norm[neighbours])
          if K == 'sphere':
              alpha_norm.append(min_corr)
          elif K == 'ball':
              alpha_norm.append(np.min([min_corr,0]))
          else:
              return 'Only sphere and ball are supported as data domains'
      return np.multiply(alpha_norm, np.reciprocal(norm.T)) * radius ** (-1)
  \<close>
\<close>

text \<open>
  \<^verbatim>\<open>np.unique(np.array(facets)[mask])\<close>: the sorted distinct indices of the facets
  that contain \<open>vert\<close>. The facet list has to be a rectangular table of integers with at
  least one row and one column; otherwise numpy builds an array that is no integer
  array, and indexing \<^verbatim>\<open>W_norm\<close> with it raises \<^verbatim>\<open>IndexError\<close>.
\<close>

definition neighbours :: "nat list list \<Rightarrow> nat \<Rightarrow> py_error + nat list" where
  "neighbours facets vert =
     (if facets = [] \<or> hd facets = [] \<or> \<not> list_all (\<lambda>f. length f = length (hd facets)) facets
      then Inl IndexError
      else Inr (sort (remdups (concat (filter (\<lambda>facet. vert \<in> set facet) facets)))))"

text \<open>The minimum of the pairwise correlations of vertex \<open>vert\<close> with its neighbourhood.\<close>

definition pairwise_min :: "matrix \<Rightarrow> nat list \<Rightarrow> nat \<Rightarrow> py_error + real" where
  "pairwise_min W_norm nb vert =
     (case take_idx W_norm nb of
        Inl e \<Rightarrow> Inl e
      | Inr F \<Rightarrow>
          if length W_norm \<le> vert then Inl IndexError
          else np_min (map (\<lambda>r. dot (W_norm ! vert) r) F))"

text \<open>The value of \<^verbatim>\<open>min_corr\<close> when the loop body reaches the test of \<open>K\<close>.\<close>

definition min_corr :: "numlib \<Rightarrow> matrix \<Rightarrow> nat list list \<Rightarrow> nat \<Rightarrow> py_error + real" where
  "min_corr lib W_norm facets vert =
     (case neighbours facets vert of
        Inl e \<Rightarrow> Inl e
      | Inr nb \<Rightarrow>
          (case pairwise_min W_norm nb vert of
             Inl e \<Rightarrow> Inl e
           | Inr mc \<Rightarrow>
               if mc < 0
               then (case take_idx W_norm nb of Inl e \<Rightarrow> Inl e | Inr F \<Rightarrow> alpha_S lib F)
               else Inr mc))"

text \<open>
  The loop over the vertices, with \<^verbatim>\<open>alpha_norm\<close> as accumulator. It ends with an
  exception, with the returned message, or with the finished list.
\<close>

fun pbe_loop ::
  "numlib \<Rightarrow> matrix \<Rightarrow> nat list list \<Rightarrow> string \<Rightarrow> nat list \<Rightarrow> vec \<Rightarrow> py_error + (string + vec)"
where
  "pbe_loop lib W_norm facets K [] alpha_norm = Inr (Inr alpha_norm)"
| "pbe_loop lib W_norm facets K (vert # rest) alpha_norm =
     (case min_corr lib W_norm facets vert of
        Inl e \<Rightarrow> Inl e
      | Inr mc \<Rightarrow>
          if K = ''sphere'' then pbe_loop lib W_norm facets K rest (alpha_norm @ [mc])
          else if K = ''ball'' then pbe_loop lib W_norm facets K rest (alpha_norm @ [min mc 0])
          else Inr (Inl ''Only sphere and ball are supported as data domains''))"

datatype pbe_result =
    Bias vec
  | Message string

text \<open>
  \<^verbatim>\<open>is_omnidir(W) == False\<close> is true for the value \<^verbatim>\<open>False\<close> only: \<^verbatim>\<open>None == False\<close>
  is \<^verbatim>\<open>False\<close> in Python. \<^verbatim>\<open>radius ** (-1)\<close> raises for a zero radius.
  The source's variable \<^verbatim>\<open>norm\<close> is \<open>norms\<close> here and in \<open>norm_row\<close>.
\<close>

definition pbe ::
  "numlib \<Rightarrow> matrix \<Rightarrow> nat list list \<Rightarrow> string \<Rightarrow> real \<Rightarrow> printed list \<times> (py_error + pbe_result)"
where
  "pbe lib W facets K radius =
     (case is_omnidir lib W of
        (out, Inl e) \<Rightarrow> (out, Inl e)
      | (out, Inr omni) \<Rightarrow>
          if omni = Some False then (out, Inr (Message ''The frame is not omnidirectional''))
          else
            (case norm_row W of
               Inl e \<Rightarrow> (out, Inl e)
             | Inr (W_norm, norms) \<Rightarrow>
                 (case pbe_loop lib W_norm facets K [0..<length W] [] of
                    Inl e \<Rightarrow> (out, Inl e)
                  | Inr (Inl msg) \<Rightarrow> (out, Inr (Message msg))
                  | Inr (Inr alpha_norm) \<Rightarrow>
                      if radius = 0 then (out, Inl ZeroDivisionError)
                      else (out, Inr (Bias (map2 (\<lambda>a d. a * (1 / d) * (1 / radius)) alpha_norm norms))))))"

subsection \<open>\<^verbatim>\<open>relu_inv\<close>\<close>

text \<open>
  \<^verbatim>\<open>
  def relu_inv(z, W, b, facets, mode='facet'):
      I = np.where(z > 0)[0]
      if mode == 'facet':
          for i in range(0, len(facets)):
              if all(k in I for k in facets[i]):
                  break
          f_ind = facets[i]
          print('Facet', i, 'with vertices', f_ind, 'is used for reconstruction.')
      else:
          f_ind = I
      W_f = W[f_ind,:]
      b_f = b[f_ind]
      z_f = z[f_ind]
      x = np.linalg.lstsq(W_f, z_f + b_f, rcond=None)[0]
      return x
  \<close>
\<close>

definition support :: "vec \<Rightarrow> nat list" where
  "support z = filter (\<lambda>i. z ! i > 0) [0..<length z]"

text \<open>
  The \<^verbatim>\<open>for\<close> loop. The third argument is the index of the facet at the head of the
  list, the fourth the binding of the Python variable \<^verbatim>\<open>i\<close> so far (\<open>None\<close>: not
  bound yet). The result is the binding of \<^verbatim>\<open>i\<close> after the loop: the loop keeps the
  last index when it runs to its end.
\<close>

fun facet_scan :: "nat list \<Rightarrow> nat list list \<Rightarrow> nat \<Rightarrow> nat option \<Rightarrow> nat option" where
  "facet_scan I [] i bound = bound"
| "facet_scan I (facet # rest) i bound =
     (if list_all (\<lambda>k. k \<in> set I) facet then Some i
      else facet_scan I rest (Suc i) (Some i))"

definition restricted_solve :: "numlib \<Rightarrow> vec \<Rightarrow> matrix \<Rightarrow> vec \<Rightarrow> nat list \<Rightarrow> py_error + vec" where
  "restricted_solve lib z W b f_ind =
     (case take_idx W f_ind of
        Inl e \<Rightarrow> Inl e
      | Inr W_f \<Rightarrow>
          (case take_idx b f_ind of
             Inl e \<Rightarrow> Inl e
           | Inr b_f \<Rightarrow>
               (case take_idx z f_ind of
                  Inl e \<Rightarrow> Inl e
                | Inr z_f \<Rightarrow> lstsq lib W_f (map2 (\<lambda>u v. u + v) z_f b_f))))"

definition relu_inv ::
  "numlib \<Rightarrow> vec \<Rightarrow> matrix \<Rightarrow> vec \<Rightarrow> nat list list \<Rightarrow> string \<Rightarrow> printed list \<times> (py_error + vec)"
where
  "relu_inv lib z W b facets mode =
     (let I = support z
      in if mode = ''facet'' then
           (case facet_scan I facets 0 None of
              None \<Rightarrow> ([], Inl UnboundLocalError)
            | Some i \<Rightarrow> ([FacetLine i (facets ! i)], restricted_solve lib z W b (facets ! i)))
         else ([], restricted_solve lib z W b I))"

subsection \<open>Sample inputs\<close>

text \<open>
  A library whose routines answer with fixed values. It stands for the real routines
  at concrete inputs where their answers are known: the rank, the result of the linear
  program, the value of the conic program and the least-squares solution.
\<close>

definition fixed_lib :: "nat \<Rightarrow> linprog_result \<Rightarrow> real \<Rightarrow> vec \<Rightarrow> numlib" where
  "fixed_lib rk res v x =
     \<lparr>matrix_rank = (\<lambda>_. rk),
      linprog = (\<lambda>_ _ _. Inr res),
      cvx_solve = (\<lambda>_. Inr v),
      lstsq = (\<lambda>_ _. Inr x)\<rparr>"

text \<open>The four unit vectors along the axes of the plane, and the edges of their hull.\<close>

definition square :: matrix where
  "square = [[1, 0], [0, 1], [-1, 0], [0, -1]]"

definition square_facets :: "nat list list" where
  "square_facets = [[0, 1], [1, 2], [2, 3], [3, 0]]"

text \<open>
  Three unit vectors of the plane with the origin inside their hull, and a frame of
  five unit vectors; with each the edges of the hull and a solution of the linear
  program of \<^verbatim>\<open>is_omnidir\<close> (a convex combination of the rows that gives the origin).
\<close>

definition triangle :: matrix where
  "triangle = [[1, 0], [0, 1], [-3 / 5, -4 / 5]]"

definition triangle_facets :: "nat list list" where
  "triangle_facets = [[0, 1], [1, 2], [2, 0]]"

definition triangle_lp :: linprog_result where
  "triangle_lp = \<lparr>message = msg_optimal, solution = [1 / 4, 1 / 3, 5 / 12]\<rparr>"

definition pentagon :: matrix where
  "pentagon = [[1, 0], [3 / 5, 4 / 5], [0, 1], [-1, 0], [0, -1]]"

definition pentagon_facets :: "nat list list" where
  "pentagon_facets = [[0, 1], [1, 2], [2, 3], [3, 4], [4, 0]]"

definition pentagon_lp :: linprog_result where
  "pentagon_lp = \<lparr>message = msg_optimal, solution = [1 / 5, 1 / 12, 1 / 5, 1 / 4, 4 / 15]\<rparr>"

text \<open>A solution of the linear program for \<open>square\<close>, and two opposite unit vectors of the line.\<close>

definition square_highs :: linprog_result where
  "square_highs = \<lparr>message = msg_highs_optimal, solution = [1 / 4, 1 / 4, 1 / 4, 1 / 4]\<rparr>"



section \<open>Properties\<close>

subsection \<open>Helper facts about arrays\<close>

lemma vnorm_unit:
  "vnorm [1, 0] = 1" "vnorm [0, 1] = 1" "vnorm [-1, 0] = 1" "vnorm [0, -1] = 1"
  by (simp_all add: vnorm_def)

lemma vnorm_more: "vnorm [3 / 5, 4 / 5] = 1" "vnorm [- (3 / 5), - (4 / 5)] = 1"
  by (simp_all add: vnorm_def)

lemma vnorm_nonneg: "0 \<le> vnorm v"
  by (auto simp: vnorm_def intro!: sum_list_nonneg)

lemma msg_distinct: "msg_optimal \<noteq> msg_infeasible"
  by (simp add: msg_optimal_def msg_infeasible_def)

lemma scale_back: "d \<noteq> 0 \<Longrightarrow> map (\<lambda>a. d * a) (map (\<lambda>a. a / d) r) = (r :: real list)"
  by (induction r) auto


text \<open>The value of \<^verbatim>\<open>relu\<close> on arguments of matching shapes.\<close>

lemma relu_value:
  assumes "\<forall>r \<in> set W. length r = length x" and "length b = length W"
  shows "relu x W b = Inr (map2 (\<lambda>r \<beta>. max (dot r x - \<beta>) 0) W b)"
proof -
  from assms(1) have d: "np_dot W x = Inr (map (\<lambda>r. dot r x) W)"
    by (simp add: np_dot_def list_all_iff)
  from assms(2) have s: "np_sub (map (\<lambda>r. dot r x) W) b = Inr (map2 (\<lambda>u v. u - v) (map (\<lambda>r. dot r x) W) b)"
    by (simp add: np_sub_def)
  have "map (\<lambda>u. u * (if u > 0 then 1 else 0)) (map2 (\<lambda>u v. u - v) (map (\<lambda>r. dot r x) W) b)
        = map2 (\<lambda>r \<beta>. max (dot r x - \<beta>) 0) W b"
    using assms(2) by (intro nth_equalityI) (auto simp: max_def)
  with d s show ?thesis by (simp add: relu_def)
qed

lemma residual_nonneg: "0 \<le> residual A y x"
  by (auto simp: residual_def intro!: sum_list_nonneg)

lemma least_squares_exact:
  "length x = ncols A \<Longrightarrow> residual A y x = 0 \<Longrightarrow> least_squares A y x"
  using residual_nonneg by (simp add: least_squares_def)

subsection \<open>Row normalisation\<close>

text \<open>In exact arithmetic the rows are recovered from the output of \<^verbatim>\<open>norm_row\<close>.\<close>

lemma norm_row_exact:
  assumes "\<forall>r \<in> set W. vnorm r \<noteq> 0"
  shows "\<exists>W_norm norms.
           norm_row W = Inr (W_norm, norms)
           \<and> length W_norm = length W \<and> length norms = length W
           \<and> (\<forall>i < length W. norms ! i = vnorm (W ! i)
                \<and> map (\<lambda>a. norms ! i * a) (W_norm ! i) = W ! i)"
proof -
  let ?norms = "map vnorm W"
  let ?Wn = "map2 (\<lambda>r d. map (\<lambda>a. a / d) r) W ?norms"
  from assms have nz: "0 \<notin> set ?norms" by auto
  then have eq: "norm_row W = Inr (?Wn, ?norms)"
    by (simp add: norm_row_def Let_def)
  have rows: "map (\<lambda>a. ?norms ! i * a) (?Wn ! i) = W ! i" if "i < length W" for i
  proof -
    from that assms have "vnorm (W ! i) \<noteq> 0" by simp
    from scale_back [OF this, of "W ! i"] that show ?thesis by simp
  qed
  from eq rows show ?thesis by simp
qed

text \<open>Rounding to a double changes a value by at most the fraction \<open>2\<^sup>-\<^sup>5\<^sup>3\<close> of it.\<close>

lemma rne_close: "\<bar>of_int (rne y) - y\<bar> \<le> 1 / 2"
proof -
  have "of_int \<lfloor>y\<rfloor> \<le> y" "y < of_int \<lfloor>y\<rfloor> + 1" by linarith+
  then show ?thesis by (auto simp: rne_def Let_def)
qed

lemma scale_le:
  assumes "x \<noteq> 0"
  shows "2 powr of_int (\<lfloor>log 2 \<bar>x\<bar>\<rfloor> - 52) * 2 ^ 52 \<le> \<bar>x\<bar>"
proof -
  let ?e = "\<lfloor>log 2 \<bar>x\<bar>\<rfloor>"
  have "(2::real) powr of_int (?e - 52) * 2 ^ 52 = 2 powr (of_int ?e)"
    by (simp add: powr_diff)
  also have "\<dots> \<le> 2 powr (log 2 \<bar>x\<bar>)"
    by (rule powr_mono) simp_all
  also have "\<dots> = \<bar>x\<bar>" using assms by simp
  finally show ?thesis .
qed

lemma fl_error:
  assumes "fl x = Some r"
  shows "\<bar>r - x\<bar> \<le> \<bar>x\<bar> / 2 ^ 53"
proof (cases "x = 0")
  case True
  with assms show ?thesis by (simp add: fl_def)
next
  case False
  let ?s = "(2::real) powr of_int (\<lfloor>log 2 \<bar>x\<bar>\<rfloor> - 52)"
  have s: "0 < ?s" by simp
  from assms False have r: "r = of_int (rne (x / ?s)) * ?s"
    by (simp add: fl_def Let_def split: if_splits)
  have "r - x = (of_int (rne (x / ?s)) - x / ?s) * ?s"
    using s by (simp add: r algebra_simps)
  then have "\<bar>r - x\<bar> = \<bar>of_int (rne (x / ?s)) - x / ?s\<bar> * ?s"
    using s by (simp add: abs_mult)
  also have "\<dots> \<le> 1 / 2 * ?s"
    using rne_close [of "x / ?s"] s by (intro mult_right_mono) simp_all
  also have "\<dots> = (?s * 2 ^ 52) / 2 ^ 53" by simp
  also have "\<dots> \<le> \<bar>x\<bar> / 2 ^ 53"
    using scale_le [OF False] by (intro divide_right_mono) simp_all
  finally show ?thesis .
qed

lemma roundtrip_error:
  assumes "d \<noteq> 0" and "fl (w / d) = Some q" and "fl (d * q) = Some p"
  shows "\<bar>p - w\<bar> \<le> \<bar>w\<bar> / 2 ^ 51"
proof -
  from fl_error [OF assms(2)] have "\<bar>q - w / d\<bar> \<le> \<bar>w / d\<bar> / 2 ^ 53" .
  then have "\<bar>d\<bar> * \<bar>q - w / d\<bar> \<le> \<bar>d\<bar> * (\<bar>w / d\<bar> / 2 ^ 53)"
    by (intro mult_left_mono) simp_all
  moreover have "\<bar>d\<bar> * \<bar>q - w / d\<bar> = \<bar>d * q - w\<bar>"
    using assms(1) by (simp add: abs_mult [symmetric] algebra_simps)
  moreover have "\<bar>d\<bar> * (\<bar>w / d\<bar> / 2 ^ 53) = \<bar>w\<bar> / 2 ^ 53"
    using assms(1) by (simp add: abs_divide)
  ultimately have a: "\<bar>d * q - w\<bar> \<le> \<bar>w\<bar> / 2 ^ 53" by simp
  then have "\<bar>d * q\<bar> \<le> \<bar>w\<bar> + \<bar>w\<bar> / 2 ^ 53" by linarith
  then have "\<bar>d * q\<bar> \<le> 2 * \<bar>w\<bar>" by simp
  with fl_error [OF assms(3)] have b: "\<bar>p - d * q\<bar> \<le> 2 * \<bar>w\<bar> / 2 ^ 53"
    by (smt (verit) divide_right_mono zero_le_numeral zero_le_power)
  have "\<bar>p - w\<bar> \<le> \<bar>p - d * q\<bar> + \<bar>d * q - w\<bar>" by linarith
  with a b have "\<bar>p - w\<bar> \<le> 3 * \<bar>w\<bar> / 2 ^ 53" by simp
  also have "\<dots> \<le> \<bar>w\<bar> / 2 ^ 51" by simp
  finally show ?thesis .
qed

text \<open>The double nearest to a given real, from the binade of the real.\<close>

lemma floor_log2:
  assumes "0 < x" and "2 powr of_int e \<le> x" and "x < 2 powr (of_int e + 1)"
  shows "\<lfloor>log 2 x\<rfloor> = e"
proof (rule floor_unique)
  from assms(1,2) show "of_int e \<le> log 2 x" by (simp add: le_log_iff)
  from assms(1,3) show "log 2 x < of_int e + 1" by (simp add: log_less_iff)
qed

lemma fl_eval:
  assumes "x \<noteq> 0" and "2 powr of_int e \<le> \<bar>x\<bar>" and "\<bar>x\<bar> < 2 powr (of_int e + 1)"
    and "- 1022 \<le> e"
    and "r = of_int (rne (x / 2 powr of_int (e - 52))) * 2 powr of_int (e - 52)"
    and "\<bar>r\<bar> < 2 powr 1024"
  shows "fl x = Some r"
proof -
  from assms(1) have "0 < \<bar>x\<bar>" by simp
  from floor_log2 [OF this assms(2,3)] have "\<lfloor>log 2 \<bar>x\<bar>\<rfloor> = e" .
  with assms(1,4,5,6) show ?thesis by (simp add: fl_def Let_def)
qed

lemma fl_7_25: "fl (7 / 25) = Some (5044031582654956 / 2 ^ 54)"
  by (rule fl_eval [where e = "-2"]) (simp_all add: rne_def Let_def powr_neg_numeral)

lemma fl_24_25: "fl (24 / 25) = Some (8646911284551352 / 2 ^ 53)"
  by (rule fl_eval [where e = "-1"]) (simp_all add: rne_def Let_def powr_neg_numeral)

lemma fl_prod: "fl (25 * (5044031582654956 / 2 ^ 54)) = Some (7881299347898369 / 2 ^ 50)"
  by (rule fl_eval [where e = "2"]) (simp_all add: rne_def Let_def powr_neg_numeral)

text \<open>What a finished run of \<open>norm_row_fp\<close> has computed.\<close>

lemma those_result:
  "those xs = Some ys \<Longrightarrow> length ys = length xs \<and> (\<forall>i < length xs. xs ! i = Some (ys ! i))"
proof (induction xs arbitrary: ys)
  case Nil
  then show ?case by simp
next
  case (Cons x xs)
  from Cons.prems obtain y ys' where x: "x = Some y" and r: "those xs = Some ys'" and ys: "ys = y # ys'"
    by (auto split: option.splits)
  from Cons.IH [OF r] have "length ys' = length xs" and "\<forall>i < length xs. xs ! i = Some (ys' ! i)"
    by simp_all
  with x ys show ?case by (auto simp: nth_Cons split: nat.splits)
qed

lemma norm_row_fp_result:
  assumes "norm_row_fp np_norm W = Some (W_norm, norms)" and "i < length W"
  shows "length W_norm = length W \<and> norms = map np_norm W \<and> norms ! i \<noteq> 0
       \<and> length (W_norm ! i) = length (W ! i)
       \<and> (\<forall>j < length (W ! i). fl (W ! i ! j / norms ! i) = Some (W_norm ! i ! j))"
proof -
  let ?rows = "map2 (\<lambda>r d. those (map (\<lambda>a. fl (a / d)) r)) W (map np_norm W)"
  from assms(1) have n: "norms = map np_norm W" and z: "0 \<notin> set (map np_norm W)"
    and t: "those ?rows = Some W_norm"
    by (auto simp: norm_row_fp_def Let_def split: if_splits option.splits)
  from those_result [OF t] have l: "length W_norm = length W"
    and r: "\<forall>k < length W. ?rows ! k = Some (W_norm ! k)" by simp_all
  from r assms(2) have "those (map (\<lambda>a. fl (a / np_norm (W ! i))) (W ! i)) = Some (W_norm ! i)"
    by simp
  from those_result [OF this] have li: "length (W_norm ! i) = length (W ! i)"
    and q: "\<forall>j < length (W ! i). fl (W ! i ! j / np_norm (W ! i)) = Some (W_norm ! i ! j)"
    by simp_all
  from z assms(2) have "np_norm (W ! i) \<noteq> 0" by (metis length_map nth_map nth_mem)
  with n l li q assms(2) show ?thesis by simp
qed

text \<open>The run on the single row \<open>[7, 24]\<close>, whose norm is the double \<open>25\<close>.\<close>

lemma vnorm_7_24: "vnorm [7, 24] = 25"
  using real_sqrt_abs2 [of 25] by (simp add: vnorm_def)

lemma norm_row_fp_7_24:
  "norm_row_fp vnorm [[7, 24]]
     = Some ([[5044031582654956 / 2 ^ 54, 8646911284551352 / 2 ^ 53]], [25])"
  using fl_7_25 fl_24_25 by (simp add: norm_row_fp_def vnorm_7_24)

text \<open>
  Claim C10, as stated, fails in double precision. For \<open>W = [[7, 24]]\<close> the norm
  is \<open>25\<close>, the quotient \<open>7 / 25\<close> is rounded up to the next double, and the
  product of \<open>25\<close> with that double is rounded to the double above \<open>7\<close>
  (\<open>7.000000000000001\<close>), not to \<open>7\<close>.
\<close>

theorem norm_row_recovery_counterexample:
  "vnorm [7, 24] = 25
   \<and> norm_row_fp vnorm [[7, 24]]
       = Some ([[5044031582654956 / 2 ^ 54, 8646911284551352 / 2 ^ 53]], [25])
   \<and> fl (25 * (5044031582654956 / 2 ^ 54)) = Some (7881299347898369 / 2 ^ 50)
   \<and> (7881299347898369 / 2 ^ 50 :: real) \<noteq> 7"
  using vnorm_7_24 norm_row_fp_7_24 fl_prod by simp

text \<open>
  Claim C10, amended. When \<^verbatim>\<open>norm_row\<close> in double precision returns
  \<open>(W_norm, norms)\<close> (no norm is zero and every quotient is zero or a normal double),
  the output has the shape of \<open>W\<close>, and for every row \<open>i\<close> and column \<open>j\<close> the
  double product \<open>norms[i] * W_norm[i, j]\<close>, when it is zero or a normal double,
  differs from \<open>W[i, j]\<close> by at most \<open>\<bar>W[i, j]\<bar> / 2\<^sup>5\<^sup>1\<close>: the frame is recovered
  up to rounding, not exactly.
\<close>

theorem norm_row_fp_recovery_bound:
  assumes "norm_row_fp np_norm W = Some (W_norm, norms)"
    and "i < length W" and "j < length (W ! i)"
    and "fl (norms ! i * W_norm ! i ! j) = Some p"
  shows "length W_norm = length W \<and> length norms = length W
       \<and> length (W_norm ! i) = length (W ! i)
       \<and> \<bar>p - W ! i ! j\<bar> \<le> \<bar>W ! i ! j\<bar> / 2 ^ 51"
proof -
  from norm_row_fp_result [OF assms(1,2)] have l: "length W_norm = length W"
    and n: "norms = map np_norm W" and d: "norms ! i \<noteq> 0"
    and li: "length (W_norm ! i) = length (W ! i)"
    and q: "\<forall>j < length (W ! i). fl (W ! i ! j / norms ! i) = Some (W_norm ! i ! j)"
    by blast+
  from q assms(3) have "fl (W ! i ! j / norms ! i) = Some (W_norm ! i ! j)" by simp
  from roundtrip_error [OF d this assms(4)] l n li show ?thesis by simp
qed

theorem norm_row_fp_recovery_bound_witness:
  "norm_row_fp vnorm [[7, 24]]
       = Some ([[5044031582654956 / 2 ^ 54, 8646911284551352 / 2 ^ 53]], [25])
   \<and> fl (25 * (5044031582654956 / 2 ^ 54)) = Some (7881299347898369 / 2 ^ 50)
   \<and> \<bar>7881299347898369 / 2 ^ 50 - 7\<bar> \<le> \<bar>7 :: real\<bar> / 2 ^ 51"
proof -
  have h2: "0 < length [[7, 24 :: real]]" by simp
  have h3: "0 < length ([[7, 24 :: real]] ! 0)" by simp
  have h4: "fl ([25] ! 0 * [[5044031582654956 / 2 ^ 54, 8646911284551352 / 2 ^ 53]] ! 0 ! 0)
              = Some (7881299347898369 / 2 ^ 50)"
    using fl_prod by simp
  from norm_row_fp_recovery_bound [OF norm_row_fp_7_24 h2 h3 h4]
  have "\<bar>7881299347898369 / 2 ^ 50 - 7\<bar> \<le> \<bar>7 :: real\<bar> / 2 ^ 51" by simp
  with norm_row_fp_7_24 fl_prod show ?thesis by simp
qed

subsection \<open>The forward map\<close>

text \<open>
  Claim C6. For \<open>x\<close>, \<open>W\<close>, \<open>b\<close> of matching shapes (every row of \<open>W\<close> as long as \<open>x\<close>,
  \<open>b\<close> with one entry per row), \<^verbatim>\<open>relu(x, W, b)\<close> returns the entrywise maximum of
  \<open>W x - b\<close> and \<open>0\<close>. The result is a function of the three arguments alone: the
  source prints nothing and changes no argument.
\<close>

theorem relu_is_max:
  assumes "\<forall>r \<in> set W. length r = length x" and "length b = length W"
  shows "relu x W b = Inr (map2 (\<lambda>r \<beta>. max (dot r x - \<beta>) 0) W b)"
  using assms by (rule relu_value)

theorem relu_is_max_witness:
  "list_all (\<lambda>r. length r = length [3 / 5, 4 / 5 :: real]) [[1, 0], [0, 1], [-1, 0 :: real]]
   \<and> length [0, 1, 0 :: real] = length [[1, 0], [0, 1], [-1, 0 :: real]]
   \<and> relu [3 / 5, 4 / 5] [[1, 0], [0, 1], [-1, 0]] [0, 1, 0] = Inr [3 / 5, 0, 0]"
proof -
  have h1: "\<forall>r \<in> set [[1, 0], [0, 1], [-1, 0 :: real]]. length r = length [3 / 5, 4 / 5 :: real]"
    by simp
  have h2: "length [0, 1, 0 :: real] = length [[1, 0], [0, 1], [-1, 0 :: real]]"
    by simp
  from relu_is_max [OF h1 h2] h1 show ?thesis
    by (simp add: dot_def)
qed

subsection \<open>The omnidirectionality check\<close>

text \<open>
  What \<^verbatim>\<open>is_omnidir\<close> does with a result of the linear program whose message is one
  of the two strings it compares against.
\<close>

lemma is_omnidir_matched_message:
  assumes "matrix_rank lib W = ncols W"
    and "linprog lib (replicate (length W) 1) (transpose W @ [replicate (length W) 1])
           (replicate (ncols W) 0 @ [1]) = Inr res"
  shows "(message res = msg_infeasible \<longrightarrow> is_omnidir lib W = ([], Inr (Some False)))
       \<and> (message res = msg_optimal \<longrightarrow>
            snd (is_omnidir lib W) = Inr (Some True)
            \<and> fst (is_omnidir lib W) =
                (if \<exists>c \<in> set (solution res). c < 1 / 10 ^ 10
                 then [Line ''0 lies at or very very close to the boundary of the polytope.'']
                 else []))"
  using assms by (simp add: is_omnidir_def Let_def msg_distinct list_ex_iff)

text \<open>
  Claim C9, as the code behaves. \<^verbatim>\<open>is_omnidir\<close> reads the outcome of the linear
  program from the text of its message alone. For a matrix of full column rank and a
  result whose message is neither of the two strings, it prints nothing and returns
  \<^verbatim>\<open>None\<close>: neither \<^verbatim>\<open>False\<close> for an infeasible program nor \<^verbatim>\<open>True\<close> for an
  optimum. The message of the pinned scipy release for an optimum is such a message.
\<close>

theorem is_omnidir_unmatched_message:
  assumes "matrix_rank lib W = ncols W"
    and "linprog lib (replicate (length W) 1) (transpose W @ [replicate (length W) 1])
           (replicate (ncols W) 0 @ [1]) = Inr res"
    and "message res \<noteq> msg_infeasible" and "message res \<noteq> msg_optimal"
  shows "is_omnidir lib W = ([], Inr None)"
  using assms by (simp add: is_omnidir_def Let_def)

theorem is_omnidir_unmatched_message_witness:
  "map (\<lambda>r. dot r (solution square_highs)) (transpose square @ [replicate 4 1]) = [0, 0, 1]
   \<and> message square_highs \<noteq> msg_infeasible
   \<and> message square_highs \<noteq> msg_optimal
   \<and> is_omnidir (fixed_lib 2 square_highs 0 []) square = ([], Inr None)"
proof -
  let ?lib = "fixed_lib 2 square_highs 0 []"
  have h1: "matrix_rank ?lib square = ncols square"
    by (simp add: fixed_lib_def square_def ncols_def)
  have h2: "linprog ?lib (replicate (length square) 1)
              (transpose square @ [replicate (length square) 1])
              (replicate (ncols square) 0 @ [1]) = Inr square_highs"
    by (simp add: fixed_lib_def)
  have h3: "message square_highs \<noteq> msg_infeasible"
    by (simp add: square_highs_def msg_highs_optimal_def msg_infeasible_def)
  have h4: "message square_highs \<noteq> msg_optimal"
    by (simp add: square_highs_def msg_highs_optimal_def msg_optimal_def)
  have a: "map (\<lambda>r. dot r (solution square_highs)) (transpose square @ [replicate 4 1]) = [0, 0, 1]"
    by (simp add: square_highs_def square_def dot_def numeral_eq_Suc)
  from is_omnidir_unmatched_message [OF h1 h2 h3 h4] a h3 h4 show ?thesis by simp
qed

subsection \<open>A matrix that is not a frame\<close>

text \<open>
  Claim C2, at the input \<open>W = [[1, 0], [1, 0]]\<close> (two equal rows, rank 1 with 2
  columns: the nonzero vector \<open>[0, 1]\<close> is orthogonal to both rows),
  \<open>facets = [[0, 1]]\<close>, \<open>K = 'sphere'\<close>, \<open>radius = 1\<close>. The check prints
  that the system is not a frame and returns \<^verbatim>\<open>None\<close>, without a call of the linear
  program. \<^verbatim>\<open>pbe\<close> compares that value with \<^verbatim>\<open>False\<close>, finds them different, and
  goes on to return the bias vector \<open>[1, 1]\<close>.
\<close>

theorem rank_deficient_pbe_proceeds:
  assumes "matrix_rank lib [[1, 0], [1, 0]] \<noteq> 2"
  shows "is_omnidir lib [[1, 0], [1, 0]] = ([Line ''The system is not a frame''], Inr None)
       \<and> pbe lib [[1, 0], [1, 0]] [[0, 1]] ''sphere'' 1
           = ([Line ''The system is not a frame''], Inr (Bias [1, 1]))"
proof -
  have om: "is_omnidir lib [[1, 0], [1, 0]] = ([Line ''The system is not a frame''], Inr None)"
    using assms by (simp add: is_omnidir_def ncols_def)
  have nr: "norm_row [[1, 0], [1, 0]] = Inr ([[1, 0], [1, 0]], [1, 1])"
    by (simp add: norm_row_def vnorm_unit)
  have "pbe lib [[1, 0], [1, 0]] [[0, 1]] ''sphere'' 1
           = ([Line ''The system is not a frame''], Inr (Bias [1, 1]))"
    by (simp add: pbe_def om nr upt_rec min_corr_def neighbours_def pairwise_min_def
        take_idx_def dot_def)
  with om show ?thesis by simp
qed


theorem rank_deficient_pbe_proceeds_witness:
  "map (\<lambda>r. dot r [0, 1]) [[1, 0], [1, 0]] = [0, 0]
   \<and> pbe (fixed_lib 1 \<lparr>message = [], solution = []\<rparr> 0 []) [[1, 0], [1, 0]] [[0, 1]] ''sphere'' 1
       = ([Line ''The system is not a frame''], Inr (Bias [1, 1]))"
proof -
  have h: "matrix_rank (fixed_lib 1 \<lparr>message = [], solution = []\<rparr> 0 []) [[1, 0], [1, 0]] \<noteq> 2"
    by (simp add: fixed_lib_def)
  from rank_deficient_pbe_proceeds [OF h] show ?thesis by (simp add: dot_def)
qed

lemma in_support: "k \<in> set (support z) \<longleftrightarrow> k < length z \<and> 0 < z ! k"
  by (auto simp: support_def)

lemma facet_scan_exhausted:
  "\<forall>f \<in> set fs. \<not> list_all (\<lambda>k. k \<in> set I) f \<Longrightarrow>
   facet_scan I fs i bound = (if fs = [] then bound else Some (i + length fs - 1))"
  by (induction fs arbitrary: i bound) auto

lemma facet_scan_first:
  "j < length fs \<Longrightarrow> list_all (\<lambda>k. k \<in> set I) (fs ! j) \<Longrightarrow>
   \<forall>l < j. \<not> list_all (\<lambda>k. k \<in> set I) (fs ! l) \<Longrightarrow>
   facet_scan I fs i bound = Some (i + j)"
proof (induction fs arbitrary: i j bound)
  case Nil
  then show ?case by simp
next
  case (Cons f fs)
  show ?case
  proof (cases j)
    case 0
    with Cons.prems show ?thesis by simp
  next
    case (Suc j')
    from Cons.prems(3) Suc have nf: "\<not> list_all (\<lambda>k. k \<in> set I) f" by auto
    from Cons.prems Suc have "facet_scan I fs (Suc i) (Some i) = Some (Suc i + j')"
      by (intro Cons.IH) auto
    with nf Suc show ?thesis by simp
  qed
qed

text \<open>The run of \<^verbatim>\<open>relu_inv\<close> when facet \<open>i\<close> is the first one inside the support.\<close>

lemma relu_inv_first:
  assumes "i < length facets"
    and "list_all (\<lambda>k. k \<in> set (support z)) (facets ! i)"
    and "\<forall>j < i. \<not> list_all (\<lambda>k. k \<in> set (support z)) (facets ! j)"
    and "length W = length z" and "length b = length z"
  shows "relu_inv lib z W b facets ''facet'' =
           ([FacetLine i (facets ! i)],
            lstsq lib (map (\<lambda>k. W ! k) (facets ! i)) (map (\<lambda>k. z ! k + b ! k) (facets ! i)))"
proof -
  let ?f = "facets ! i"
  from assms(1-3) have sc: "facet_scan (support z) facets 0 None = Some i"
    using facet_scan_first [of i facets "support z" 0 None] by simp
  from assms(2) have rng: "\<forall>k \<in> set ?f. k < length z"
    by (simp add: list_all_iff in_support)
  with assms(4,5) have tk: "take_idx W ?f = Inr (map (\<lambda>k. W ! k) ?f)"
    "take_idx b ?f = Inr (map (\<lambda>k. b ! k) ?f)" "take_idx z ?f = Inr (map (\<lambda>k. z ! k) ?f)"
    by (simp_all add: take_idx_def list_all_iff)
  have "map2 (\<lambda>u v. u + v) (map (\<lambda>k. z ! k) ?f) (map (\<lambda>k. b ! k) ?f) = map (\<lambda>k. z ! k + b ! k) ?f"
    by (rule nth_equalityI) simp_all
  then have "restricted_solve lib z W b ?f = lstsq lib (map (\<lambda>k. W ! k) ?f) (map (\<lambda>k. z ! k + b ! k) ?f)"
    by (simp add: restricted_solve_def tk)
  with sc show ?thesis by (simp add: relu_inv_def)
qed

subsection \<open>Reconstruction from a facet\<close>

text \<open>
  Claim C3, as the code behaves. When no facet of the list has all its indices in the
  support of \<open>z\<close>, \<^verbatim>\<open>relu_inv\<close> in mode \<open>'facet'\<close> raises no error of its own for
  that: the loop runs to its end, and the last facet of the list is printed and used
  for the reconstruction. Only for an empty list the read of the unbound loop variable
  raises.
\<close>

theorem relu_inv_no_active_facet:
  assumes "\<forall>f \<in> set facets. \<not> list_all (\<lambda>k. k \<in> set (support z)) f"
  shows "relu_inv lib z W b facets ''facet'' =
           (if facets = [] then ([], Inl UnboundLocalError)
            else ([FacetLine (length facets - 1) (last facets)],
                  restricted_solve lib z W b (last facets)))"
  using assms
  by (simp add: relu_inv_def facet_scan_exhausted [where bound = None and i = 0] last_conv_nth)

theorem relu_inv_no_active_facet_witness:
  "relu_inv (fixed_lib 2 \<lparr>message = [], solution = []\<rparr> 0 [0, 0]) [0, 1, 0, 0] square [0, 0, 0, 0]
      square_facets ''facet''
   = ([FacetLine 3 [3, 0]], Inr [0, 0])"
proof -
  have h: "\<forall>f \<in> set square_facets. \<not> list_all (\<lambda>k. k \<in> set (support [0, 1, 0, 0])) f"
    by (simp add: square_facets_def in_support)
  from relu_inv_no_active_facet [OF h] show ?thesis
    by (simp add: square_facets_def square_def restricted_solve_def take_idx_def fixed_lib_def)
qed

text \<open>
  Claim C5. In mode \<open>'facet'\<close>, \<^verbatim>\<open>relu_inv\<close> goes through the facet list in its
  order and takes the first facet \<open>i\<close> all of whose indices are in the support of \<open>z\<close>
  (no facet before it has that property). It prints that facet and returns what
  \<^verbatim>\<open>lstsq\<close> answers for the system \<open>W_f x \<approx> z_f + b_f\<close>, where \<open>W_f\<close>, \<open>z_f\<close>,
  \<open>b_f\<close> are \<open>W\<close>, \<open>z\<close>, \<open>b\<close> at the indices of that facet. With a routine
  \<^verbatim>\<open>lstsq\<close> that answers this system with a least-squares solution, the vector that
  \<^verbatim>\<open>relu_inv\<close> returns is a least-squares solution of \<open>W_f x \<approx> z_f + b_f\<close>.
\<close>

theorem relu_inv_first_active_facet:
  assumes "i < length facets"
    and "list_all (\<lambda>k. k \<in> set (support z)) (facets ! i)"
    and "\<forall>j < i. \<not> list_all (\<lambda>k. k \<in> set (support z)) (facets ! j)"
    and "length W = length z" and "length b = length z"
    and "\<forall>x. lstsq lib (map (\<lambda>k. W ! k) (facets ! i)) (map (\<lambda>k. z ! k + b ! k) (facets ! i)) = Inr x
           \<longrightarrow> least_squares (map (\<lambda>k. W ! k) (facets ! i)) (map (\<lambda>k. z ! k + b ! k) (facets ! i)) x"
  shows "relu_inv lib z W b facets ''facet'' =
           ([FacetLine i (facets ! i)],
            lstsq lib (map (\<lambda>k. W ! k) (facets ! i)) (map (\<lambda>k. z ! k + b ! k) (facets ! i)))
       \<and> (\<forall>x. snd (relu_inv lib z W b facets ''facet'') = Inr x \<longrightarrow>
            least_squares (map (\<lambda>k. W ! k) (facets ! i)) (map (\<lambda>k. z ! k + b ! k) (facets ! i)) x)"
proof -
  from relu_inv_first [OF assms(1-5)]
  have eq: "relu_inv lib z W b facets ''facet'' =
           ([FacetLine i (facets ! i)],
            lstsq lib (map (\<lambda>k. W ! k) (facets ! i)) (map (\<lambda>k. z ! k + b ! k) (facets ! i)))" .
  with assms(6) show ?thesis by simp
qed

theorem relu_inv_first_active_facet_witness:
  "least_squares [[0, 1], [-1, 0]] [1, 2] [-2, 1]
   \<and> relu_inv (fixed_lib 2 \<lparr>message = [], solution = []\<rparr> 0 [-2, 1]) [0, 1, 2, 0] square
        [0, 0, 0, 0] square_facets ''facet''
     = ([FacetLine 1 [1, 2]], Inr [-2, 1])"
proof -
  let ?z = "[0, 1, 2, 0 :: real]"
  let ?lib = "fixed_lib 2 \<lparr>message = [], solution = []\<rparr> 0 [-2, 1]"
  have h1: "1 < length square_facets" by (simp add: square_facets_def)
  have h2: "list_all (\<lambda>k. k \<in> set (support ?z)) (square_facets ! 1)"
    by (simp add: square_facets_def in_support)
  have h3: "\<forall>j < 1. \<not> list_all (\<lambda>k. k \<in> set (support ?z)) (square_facets ! j)"
    by (simp add: square_facets_def in_support)
  have h4: "length square = length ?z" by (simp add: square_def)
  have h5: "length [0, 0, 0, 0 :: real] = length ?z" by simp
  have l: "least_squares [[0, 1], [-1, 0]] [1, 2] [-2, 1]"
    by (rule least_squares_exact) (simp_all add: ncols_def residual_def dot_def)
  have Wf: "map (\<lambda>k. square ! k) (square_facets ! 1) = [[0, 1], [-1, 0]]"
    by (simp add: square_facets_def square_def)
  have y: "map (\<lambda>k. ?z ! k + [0, 0, 0, 0] ! k) (square_facets ! 1) = [1, 2]"
    by (simp add: square_facets_def)
  have h6: "\<forall>x. lstsq ?lib (map (\<lambda>k. square ! k) (square_facets ! 1))
                 (map (\<lambda>k. ?z ! k + [0, 0, 0, 0] ! k) (square_facets ! 1)) = Inr x
           \<longrightarrow> least_squares (map (\<lambda>k. square ! k) (square_facets ! 1))
                 (map (\<lambda>k. ?z ! k + [0, 0, 0, 0] ! k) (square_facets ! 1)) x"
    unfolding Wf y using l by (simp add: fixed_lib_def)
  from relu_inv_first_active_facet [OF h1 h2 h3 h4 h5 h6, THEN conjunct1]
  have "relu_inv ?lib ?z square [0, 0, 0, 0] square_facets ''facet''
     = ([FacetLine 1 [1, 2]], Inr [-2, 1])"
    by (simp add: square_facets_def fixed_lib_def)
  with l show ?thesis by simp
qed

subsection \<open>The bias vector\<close>

text \<open>What a finished run of the loop over the vertices has put into \<^verbatim>\<open>alpha_norm\<close>.\<close>

lemma pbe_loop_result:
  "pbe_loop lib Wn F K vs acc = Inr (Inr res) \<Longrightarrow>
   length res = length acc + length vs
   \<and> (\<forall>j < length vs. \<exists>mc. min_corr lib Wn F (vs ! j) = Inr mc
          \<and> (K = ''sphere'' \<or> K = ''ball'')
          \<and> res ! (length acc + j) = (if K = ''ball'' then min mc 0 else mc))
   \<and> (\<forall>j < length acc. res ! j = acc ! j)"
proof (induction vs arbitrary: acc)
  case Nil
  then show ?case by simp
next
  case (Cons v vs)
  from Cons.prems obtain mc where mc: "min_corr lib Wn F v = Inr mc"
    by (auto split: sum.splits)
  from Cons.prems mc have K: "K = ''sphere'' \<or> K = ''ball''"
    by (auto split: if_splits)
  let ?a = "if K = ''ball'' then min mc 0 else mc"
  from Cons.prems mc K have rec: "pbe_loop lib Wn F K vs (acc @ [?a]) = Inr (Inr res)"
    by (auto split: if_splits)
  note IH = Cons.IH [OF rec]
  note len = IH [THEN conjunct1]
  note ent = IH [THEN conjunct2, THEN conjunct1]
  note pre = IH [THEN conjunct2, THEN conjunct2]
  from pre have hd: "res ! length acc = ?a"
    by (simp add: nth_append)
  have tk: "\<forall>j < length acc. res ! j = acc ! j"
  proof (intro allI impI)
    fix j assume j: "j < length acc"
    with pre have "res ! j = (acc @ [?a]) ! j" by simp
    with j show "res ! j = acc ! j" by (simp add: nth_append)
  qed
  have "\<exists>mc. min_corr lib Wn F ((v # vs) ! j) = Inr mc
          \<and> (K = ''sphere'' \<or> K = ''ball'')
          \<and> res ! (length acc + j) = (if K = ''ball'' then min mc 0 else mc)"
    if "j < length (v # vs)" for j
  proof (cases j)
    case 0
    with mc K hd show ?thesis by auto
  next
    case (Suc j')
    with that ent show ?thesis by auto
  qed
  with len tk show ?case by simp
qed

lemma norm_row_result:
  "norm_row W = Inr (W_norm, norms) \<Longrightarrow>
   length norms = length W \<and> (\<forall>v < length W. norms ! v = vnorm (W ! v) \<and> 0 < vnorm (W ! v))"
proof -
  assume a: "norm_row W = Inr (W_norm, norms)"
  then have n: "norms = map vnorm W" and z: "0 \<notin> set (map vnorm W)"
    by (auto simp: norm_row_def Let_def split: if_splits)
  have "0 < vnorm (W ! v)" if "v < length W" for v
  proof -
    from that z have "vnorm (W ! v) \<noteq> 0" by (metis length_map nth_map nth_mem)
    with vnorm_nonneg [of "W ! v"] show ?thesis by simp
  qed
  with n show ?thesis by simp
qed

lemma pbe_success:
  assumes "pbe lib W facets K radius = (out, Inr (Bias alpha))"
  shows "\<exists>W_norm norms alpha_norm.
           norm_row W = Inr (W_norm, norms)
           \<and> pbe_loop lib W_norm facets K [0..<length W] [] = Inr (Inr alpha_norm)
           \<and> radius \<noteq> 0
           \<and> alpha = map2 (\<lambda>a d. a * (1 / d) * (1 / radius)) alpha_norm norms"
  using assms
  by (auto simp: pbe_def split: prod.splits sum.splits if_splits)

lemma pbe_entry:
  assumes "pbe lib W facets K radius = (out, Inr (Bias alpha))"
  shows "length alpha = length W
       \<and> (\<exists>W_norm norms. norm_row W = Inr (W_norm, norms)
            \<and> (\<forall>v < length W. \<exists>mc. min_corr lib W_norm facets v = Inr mc
                 \<and> 0 < vnorm (W ! v) \<and> radius \<noteq> 0
                 \<and> alpha ! v = (if K = ''ball'' then min mc 0 else mc) / vnorm (W ! v) / radius))"
proof -
  from pbe_success [OF assms] obtain W_norm norms alpha_norm where
    nr: "norm_row W = Inr (W_norm, norms)"
    and lp: "pbe_loop lib W_norm facets K [0..<length W] [] = Inr (Inr alpha_norm)"
    and r: "radius \<noteq> 0"
    and al: "alpha = map2 (\<lambda>a d. a * (1 / d) * (1 / radius)) alpha_norm norms"
    by blast
  from norm_row_result [OF nr] have ln: "length norms = length W"
    and nv: "\<forall>v < length W. norms ! v = vnorm (W ! v) \<and> 0 < vnorm (W ! v)" by blast+
  from pbe_loop_result [OF lp] have la: "length alpha_norm = length W"
    and ent: "\<forall>j < length W. \<exists>mc. min_corr lib W_norm facets j = Inr mc
          \<and> alpha_norm ! j = (if K = ''ball'' then min mc 0 else mc)"
    by auto
  have "\<exists>mc. min_corr lib W_norm facets v = Inr mc
                 \<and> 0 < vnorm (W ! v) \<and> radius \<noteq> 0
                 \<and> alpha ! v = (if K = ''ball'' then min mc 0 else mc) / vnorm (W ! v) / radius"
    if v: "v < length W" for v
  proof -
    from ent v obtain mc where mc: "min_corr lib W_norm facets v = Inr mc"
      and a: "alpha_norm ! v = (if K = ''ball'' then min mc 0 else mc)" by blast
    from al v la ln have "alpha ! v = alpha_norm ! v * (1 / norms ! v) * (1 / radius)" by simp
    with nv v a have "alpha ! v = (if K = ''ball'' then min mc 0 else mc) / vnorm (W ! v) / radius"
      by simp
    with mc nv v r show ?thesis by blast
  qed
  moreover from al la ln have "length alpha = length W" by simp
  ultimately show ?thesis using nr by blast
qed

text \<open>The runs of \<^verbatim>\<open>pbe\<close> on the sample frames.\<close>

lemma omni_pentagon: "is_omnidir (fixed_lib 2 pentagon_lp v x) pentagon = ([], Inr (Some True))"
  by (simp add: is_omnidir_def fixed_lib_def pentagon_def pentagon_lp_def ncols_def msg_distinct)

lemma omni_triangle: "is_omnidir (fixed_lib 2 triangle_lp v x) triangle = ([], Inr (Some True))"
  by (simp add: is_omnidir_def fixed_lib_def triangle_def triangle_lp_def ncols_def msg_distinct)

lemma norm_row_pentagon: "norm_row pentagon = Inr (pentagon, [1, 1, 1, 1, 1])"
  by (simp add: norm_row_def pentagon_def vnorm_unit vnorm_more)

lemma norm_row_triangle: "norm_row triangle = Inr (triangle, [1, 1, 1])"
  by (simp add: norm_row_def triangle_def vnorm_unit vnorm_more)

lemma loop_pentagon_sphere:
  "pbe_loop lib pentagon pentagon_facets ''sphere'' [0..<length pentagon] [] = Inr (Inr [0, 3 / 5, 0, 0, 0])"
  by (simp add: pentagon_def pentagon_facets_def upt_rec min_corr_def neighbours_def
      pairwise_min_def take_idx_def dot_def)

lemma loop_pentagon_ball:
  "pbe_loop lib pentagon pentagon_facets ''ball'' [0..<length pentagon] [] = Inr (Inr [0, 0, 0, 0, 0])"
  by (simp add: pentagon_def pentagon_facets_def upt_rec min_corr_def neighbours_def
      pairwise_min_def take_idx_def dot_def)

lemma loop_triangle:
  "pbe_loop (fixed_lib 2 triangle_lp (-1) []) triangle triangle_facets ''sphere'' [0..<length triangle] []
     = Inr (Inr [-1, -1, -1])"
  by (simp add: triangle_def triangle_facets_def upt_rec min_corr_def neighbours_def
      pairwise_min_def take_idx_def dot_def alpha_S_def fixed_lib_def)

lemma pbe_pentagon_sphere:
  "pbe (fixed_lib 2 pentagon_lp 0 []) pentagon pentagon_facets ''sphere'' 1 = ([], Inr (Bias [0, 3 / 5, 0, 0, 0]))"
  by (simp add: pbe_def omni_pentagon norm_row_pentagon loop_pentagon_sphere)

lemma pbe_pentagon_ball:
  "pbe (fixed_lib 2 pentagon_lp 0 []) pentagon pentagon_facets ''ball'' 1 = ([], Inr (Bias [0, 0, 0, 0, 0]))"
  by (simp add: pbe_def omni_pentagon norm_row_pentagon loop_pentagon_ball)

lemma pbe_triangle:
  "pbe (fixed_lib 2 triangle_lp (-1) []) triangle triangle_facets ''sphere'' 2
     = ([], Inr (Bias [-1 / 2, -1 / 2, -1 / 2]))"
  by (simp add: pbe_def omni_triangle norm_row_triangle loop_triangle)

text \<open>
  Claim C7. When \<^verbatim>\<open>pbe\<close> returns a bias vector for a frame of \<open>m\<close> rows, the vector
  has length \<open>m\<close>, and its entry for vertex \<open>v\<close> is \<open>min_corr / norm[v] / radius\<close>,
  where \<open>min_corr\<close> is the correlation bound of the loop body for \<open>v\<close> (clamped to
  at most \<open>0\<close> for \<open>K = 'ball'\<close>) and \<open>norm[v]\<close> is the Euclidean norm of row \<open>v\<close>
  of \<open>W\<close>.
\<close>

theorem pbe_final_scaling:
  assumes "pbe lib W facets K radius = (out, Inr (Bias alpha))"
  shows "length alpha = length W
       \<and> (\<exists>W_norm norms. norm_row W = Inr (W_norm, norms)
            \<and> (\<forall>v < length W. \<exists>mc. min_corr lib W_norm facets v = Inr mc
                 \<and> alpha ! v = (if K = ''ball'' then min mc 0 else mc) / vnorm (W ! v) / radius))"
  using pbe_entry [OF assms] by blast

theorem pbe_final_scaling_witness:
  "pbe (fixed_lib 2 triangle_lp (-1) []) triangle triangle_facets ''sphere'' 2
     = ([], Inr (Bias [-1 / 2, -1 / 2, -1 / 2]))
   \<and> length [-1 / 2, -1 / 2, -1 / 2 :: real] = length triangle"
  using pbe_final_scaling [OF pbe_triangle] pbe_triangle by simp

text \<open>
  Claim C1. For a radius \<open>r > 0\<close>, when \<^verbatim>\<open>pbe\<close> returns a bias vector for the
  domain \<open>'ball'\<close> and one for the domain \<open>'sphere'\<close> on the same frame and facets,
  both have one entry per row, every entry of the ball vector is at most the entry of
  the sphere vector at the same place, and every entry of the ball vector is at most \<open>0\<close>.
\<close>

theorem pbe_ball_below_sphere:
  assumes "0 < radius"
    and "pbe lib W facets ''ball'' radius = (outB, Inr (Bias alphaB))"
    and "pbe lib W facets ''sphere'' radius = (outS, Inr (Bias alphaS))"
  shows "length alphaB = length W \<and> length alphaS = length W
       \<and> (\<forall>v < length W. alphaB ! v \<le> alphaS ! v \<and> alphaB ! v \<le> 0)"
proof -
  from pbe_entry [OF assms(2)] obtain Wn norms where
    lb: "length alphaB = length W" and nb: "norm_row W = Inr (Wn, norms)"
    and eb: "\<forall>v < length W. \<exists>mc. min_corr lib Wn facets v = Inr mc
                 \<and> 0 < vnorm (W ! v) \<and> radius \<noteq> 0
                 \<and> alphaB ! v = (if ''ball'' = ''ball'' then min mc 0 else mc) / vnorm (W ! v) / radius"
    by blast
  from pbe_entry [OF assms(3)] nb have
    ls: "length alphaS = length W"
    and es: "\<forall>v < length W. \<exists>mc. min_corr lib Wn facets v = Inr mc
                 \<and> alphaS ! v = (if ''sphere'' = ''ball'' then min mc 0 else mc) / vnorm (W ! v) / radius"
    by auto
  have "alphaB ! v \<le> alphaS ! v \<and> alphaB ! v \<le> 0" if v: "v < length W" for v
  proof -
    from eb v obtain mc where mc: "min_corr lib Wn facets v = Inr mc"
      and pos: "0 < vnorm (W ! v)" and b: "alphaB ! v = min mc 0 / vnorm (W ! v) / radius"
      by auto
    from es v mc have s: "alphaS ! v = mc / vnorm (W ! v) / radius" by auto
    from pos assms(1) have d: "0 < vnorm (W ! v) * radius" by simp
    have "min mc 0 / (vnorm (W ! v) * radius) \<le> mc / (vnorm (W ! v) * radius)"
      using d by (intro divide_right_mono) auto
    moreover have "min mc 0 / (vnorm (W ! v) * radius) \<le> 0"
      using d by (simp add: divide_le_0_iff)
    ultimately show ?thesis using b s by simp
  qed
  with lb ls show ?thesis by simp
qed

theorem pbe_ball_below_sphere_witness:
  "pbe (fixed_lib 2 pentagon_lp 0 []) pentagon pentagon_facets ''ball'' 1 = ([], Inr (Bias [0, 0, 0, 0, 0]))
   \<and> pbe (fixed_lib 2 pentagon_lp 0 []) pentagon pentagon_facets ''sphere'' 1
       = ([], Inr (Bias [0, 3 / 5, 0, 0, 0]))
   \<and> [0, 0, 0, 0, 0 :: real] ! 1 \<le> [0, 3 / 5, 0, 0, 0] ! 1"
proof -
  have r: "(0 :: real) < 1" by simp
  from pbe_ball_below_sphere [OF r pbe_pentagon_ball pbe_pentagon_sphere]
  have "[0, 0, 0, 0, 0 :: real] ! 1 \<le> [0, 3 / 5, 0, 0, 0] ! 1"
    by (simp add: pentagon_def)
  with pbe_pentagon_ball pbe_pentagon_sphere show ?thesis by simp
qed


subsection \<open>The conic fallback\<close>









subsection \<open>The round trip\<close>













end
